theory Spec2Isabelle
  imports Complex_Main
begin

section \<open>The persistent store\<close>

text \<open>
  The backend keeps three tables (users, issues, comments) behind the Prisma client.
  Each table is a list of rows in insertion order; a row is a record with the columns the
  controllers read and write. Identifiers, roles, statuses and categories are strings, as
  they are in the JavaScript handlers, which compare them with \<open>===\<close> and \<open>!==\<close>.
  Coordinates are JavaScript numbers; no handler computes with them.
\<close>

record user =
  user_id :: string
  user_name :: string
  user_email :: string
  user_role :: string
  profilePicture :: "string option"

record issue =
  issue_id :: string
  title :: string
  description :: string
  location :: string
  latitude :: "real option"
  longitude :: "real option"
  category :: string
  status :: string
  upvotes :: int
  images :: "string list"
  reporterId :: string
  createdAt :: nat

record comment =
  comment_id :: string
  content :: string
  issueId :: string
  authorId :: string
  comment_createdAt :: nat

record db =
  users :: "user list"
  issues :: "issue list"
  comments :: "comment list"

text \<open>
  Modelled from the spec: the \<open>Status\<close> enum of the Prisma schema. The schema file
  (prisma/schema.prisma) is not among the sources; section 3 of the specification gives
  the status of an issue as a closed enum of these five values, and the API documentation
  in the route file lists the same five.
\<close>

definition status_values :: "string list" where
  "status_values = [''REPORTED'', ''UNDER_REVIEW'', ''IN_PROGRESS'', ''RESOLVED'', ''CLOSED'']"

text \<open>
  Modelled from the spec: the \<open>Category\<close> enum of the Prisma schema, missing with the
  schema file; section 3 of the specification gives these eight values, which are also the
  list of the route's category validator.
\<close>

definition category_values :: "string list" where
  "category_values = [''ROADS'', ''WATER'', ''ELECTRICITY'', ''SANITATION'', ''PUBLIC_SAFETY'',
     ''ENVIRONMENT'', ''PUBLIC_PROPERTY'', ''OTHER'']"

text \<open>
  Modelled from the spec: the default of the \<open>status\<close> column, declared in the missing
  schema file; the specification gives the initial status of an issue as REPORTED.
\<close>

definition default_status :: string where
  "default_status = ''REPORTED''"

text \<open>
  Modelled from the spec: the default of the \<open>upvotes\<close> column, declared in the missing
  schema file; the specification gives the upvote count as a non-negative integer, and a
  new issue has none.
\<close>

definition default_upvotes :: int where
  "default_upvotes = 0"

section \<open>Requests, responses and effects\<close>

text \<open>The user attached to the request by the authentication middleware (\<open>req.user\<close>).\<close>

record req_user =
  ru_id :: string
  ru_email :: string
  ru_name :: string
  ru_role :: string

text \<open>
  An exception that leaves a handler through \<open>next(error)\<close>. The top-level error handler
  is not part of the controllers.
\<close>

datatype error =
    PrismaClientValidationError
  | PrismaRecordNotFound
  | VerifyError string

datatype jsnum = Num int | PosInfinity | NaN

record pagination =
  pg_total :: int
  pg_page :: int
  pg_limit :: int
  pg_pages :: jsnum

text \<open>The \<open>select: {id, name, email}\<close> projection of a reporter.\<close>

record reporter_view =
  rv_id :: string
  rv_name :: string
  rv_email :: string

datatype payload =
    ErrorMessage string
  | SuccessMessage string
  | Errors "string list"
  | IssueWithReporter issue "reporter_view option"
  | IssuePlain issue
  | IssuePage nat pagination "(issue \<times> user option \<times> nat) list"
  | CommentWithAuthor comment "user option"
  | UserWithCounts user nat nat
  | UserPlain user

datatype outcome = Sent nat payload | Next error

text \<open>
  What a handler does besides answering and writing to the store: the mails it hands to
  the mailer, and the lines it writes with \<open>console.error\<close>.
\<close>

datatype effect =
    SendIssueCreatedEmail string string issue
  | SendAdminNotificationEmail issue
  | SendStatusUpdateEmail string string issue string string
  | ConsoleError string

text \<open>
  The environment of one request: the identifier and the timestamp the persistence layer
  gives to a new row, and whether the mailer delivers a given mail or throws.
\<close>

record env =
  new_id :: string
  now :: nat
  mail_ok :: "effect \<Rightarrow> bool"

record result =
  res :: outcome
  db_after :: db
  effects :: "effect list"

section \<open>The Prisma operations the controllers call\<close>

definition issue_findUnique :: "string \<Rightarrow> db \<Rightarrow> issue option" where
  "issue_findUnique i d = find (\<lambda>x. issue_id x = i) (issues d)"

definition user_findUnique :: "string \<Rightarrow> db \<Rightarrow> user option" where
  "user_findUnique i d = find (\<lambda>u. user_id u = i) (users d)"

definition select_reporter :: "issue \<Rightarrow> db \<Rightarrow> reporter_view option" where
  "select_reporter x d =
     map_option (\<lambda>u. \<lparr>rv_id = user_id u, rv_name = user_name u, rv_email = user_email u\<rparr>)
       (user_findUnique (reporterId x) d)"

text \<open>
  The \<open>data\<close> object of \<open>prisma.issue.update\<close> in \<open>updateIssue\<close>. A field that is
  \<open>undefined\<close> in the request body is \<open>None\<close> and leaves the column as it is.
\<close>

record issue_patch =
  p_title :: "string option"
  p_description :: "string option"
  p_status :: "string option"
  p_category :: "string option"

text \<open>
  Modelled from the spec: the check of the written values against the enum columns of the
  schema, which is missing with the schema file. A status or category that is passed must
  be a value of its enum; a field that is not passed is not checked.
\<close>

definition patch_valid :: "issue_patch \<Rightarrow> bool" where
  "patch_valid p \<longleftrightarrow>
     (case p_status p of None \<Rightarrow> True | Some s \<Rightarrow> s \<in> set status_values) \<and>
     (case p_category p of None \<Rightarrow> True | Some c \<Rightarrow> c \<in> set category_values)"

definition apply_patch :: "issue_patch \<Rightarrow> issue \<Rightarrow> issue" where
  "apply_patch p x =
     x\<lparr>title := (case p_title p of None \<Rightarrow> title x | Some t \<Rightarrow> t),
       description := (case p_description p of None \<Rightarrow> description x | Some t \<Rightarrow> t),
       status := (case p_status p of None \<Rightarrow> status x | Some t \<Rightarrow> t),
       category := (case p_category p of None \<Rightarrow> category x | Some t \<Rightarrow> t)\<rparr>"

definition update_rows :: "string \<Rightarrow> (issue \<Rightarrow> issue) \<Rightarrow> issue list \<Rightarrow> issue list" where
  "update_rows i f xs = map (\<lambda>x. if issue_id x = i then f x else x) xs"

text \<open>
  \<open>prisma.issue.update\<close> with the four-field data object. It throws when a value is not
  of the column's enum (the check is the schema's, see above) and when no row has the id;
  otherwise it returns the updated row and the new store.
\<close>

definition issue_update :: "string \<Rightarrow> issue_patch \<Rightarrow> db \<Rightarrow> error + (issue \<times> db)" where
  "issue_update i p d =
     (if \<not> patch_valid p then Inl PrismaClientValidationError
      else case issue_findUnique i d of
             None \<Rightarrow> Inl PrismaRecordNotFound
           | Some x \<Rightarrow> Inr (apply_patch p x, d\<lparr>issues := update_rows i (apply_patch p) (issues d)\<rparr>))"

text \<open>\<open>prisma.issue.update\<close> with \<open>data: {upvotes: {increment: 1}}\<close>.\<close>

definition increment_upvotes :: "issue \<Rightarrow> issue" where
  "increment_upvotes x = x\<lparr>upvotes := upvotes x + 1\<rparr>"

definition issue_increment :: "string \<Rightarrow> db \<Rightarrow> error + (issue \<times> db)" where
  "issue_increment i d =
     (case issue_findUnique i d of
        None \<Rightarrow> Inl PrismaRecordNotFound
      | Some x \<Rightarrow> Inr (increment_upvotes x, d\<lparr>issues := update_rows i increment_upvotes (issues d)\<rparr>))"

text \<open>\<open>prisma.comment.deleteMany({where: {issueId: id}})\<close>.\<close>

definition comment_deleteMany :: "string \<Rightarrow> db \<Rightarrow> db" where
  "comment_deleteMany i d = d\<lparr>comments := filter (\<lambda>c. issueId c \<noteq> i) (comments d)\<rparr>"

text \<open>\<open>prisma.issue.delete({where: {id}})\<close>; it throws when no row has the id.\<close>

definition issue_delete :: "string \<Rightarrow> db \<Rightarrow> error + db" where
  "issue_delete i d =
     (case issue_findUnique i d of
        None \<Rightarrow> Inl PrismaRecordNotFound
      | Some x \<Rightarrow> Inr (d\<lparr>issues := filter (\<lambda>y. issue_id y \<noteq> i) (issues d)\<rparr>))"

section \<open>The issue controller\<close>

text \<open>JavaScript truthiness of a string that may be \<open>undefined\<close>.\<close>

definition truthy :: "string option \<Rightarrow> bool" where
  "truthy s \<longleftrightarrow> (case s of None \<Rightarrow> False | Some t \<Rightarrow> t \<noteq> [])"

text \<open>
  A mail sent inside \<open>try { await send(...) } catch (emailError) { console.error(...) }\<close>:
  the mail is handed to the mailer; when the mailer throws, the failure is logged and
  nothing else happens.
\<close>

definition try_send :: "env \<Rightarrow> effect \<Rightarrow> string \<Rightarrow> effect list" where
  "try_send e m msg = (if mail_ok e m then [m] else [m, ConsoleError msg])"

text \<open>
  The status mail of \<open>updateIssue\<close>. Its arguments read \<open>updatedIssue.reporter.email\<close>
  inside the \<open>try\<close> block: were the reporter row missing, the read would throw there, be
  caught and logged, and no mail would reach the mailer.
\<close>

definition status_mail :: "env \<Rightarrow> issue \<Rightarrow> reporter_view option \<Rightarrow> string \<Rightarrow> string \<Rightarrow> effect list" where
  "status_mail e x r old new =
     (case r of
        None \<Rightarrow> [ConsoleError ''Failed to send status update email:'']
      | Some v \<Rightarrow> try_send e (SendStatusUpdateEmail (rv_email v) (rv_name v) x old new)
                   ''Failed to send status update email:'')"

definition updateIssue :: "req_user \<Rightarrow> string \<Rightarrow> issue_patch \<Rightarrow> db \<Rightarrow> env \<Rightarrow> result" where
  "updateIssue actor i body d e =
     (case issue_findUnique i d of
        None \<Rightarrow> \<lparr>res = Sent 404 (ErrorMessage ''Issue not found''), db_after = d, effects = []\<rparr>
      | Some existingIssue \<Rightarrow>
          if reporterId existingIssue \<noteq> ru_id actor \<and> ru_role actor \<noteq> ''OFFICIAL''
               \<and> ru_role actor \<noteq> ''ADMIN''
          then \<lparr>res = Sent 403 (ErrorMessage ''Not authorized to update this issue''),
                db_after = d, effects = []\<rparr>
          else
            let statusChanged = (truthy (p_status body) \<and> p_status body \<noteq> Some (status existingIssue));
                oldStatus = status existingIssue
            in (case issue_update i body d of
                  Inl err \<Rightarrow> \<lparr>res = Next err, db_after = d, effects = []\<rparr>
                | Inr (updatedIssue, d') \<Rightarrow>
                    \<lparr>res = Sent 200 (IssueWithReporter updatedIssue (select_reporter updatedIssue d')),
                     db_after = d',
                     effects = (if statusChanged
                                then status_mail e updatedIssue (select_reporter updatedIssue d') oldStatus
                                       (case p_status body of None \<Rightarrow> [] | Some s \<Rightarrow> s)
                                else [])\<rparr>))"

definition deleteIssue :: "req_user \<Rightarrow> string \<Rightarrow> db \<Rightarrow> result" where
  "deleteIssue actor i d =
     (case issue_findUnique i d of
        None \<Rightarrow> \<lparr>res = Sent 404 (ErrorMessage ''Issue not found''), db_after = d, effects = []\<rparr>
      | Some existingIssue \<Rightarrow>
          if reporterId existingIssue \<noteq> ru_id actor \<and> ru_role actor \<noteq> ''ADMIN''
          then \<lparr>res = Sent 403 (ErrorMessage ''Not authorized to delete this issue''),
                db_after = d, effects = []\<rparr>
          else
            let d1 = comment_deleteMany i d
            in (case issue_delete i d1 of
                  Inl err \<Rightarrow> \<lparr>res = Next err, db_after = d1, effects = []\<rparr>
                | Inr d2 \<Rightarrow> \<lparr>res = Sent 200 (SuccessMessage ''Issue deleted successfully''),
                             db_after = d2, effects = []\<rparr>))"

definition upvoteIssue :: "req_user \<Rightarrow> string \<Rightarrow> db \<Rightarrow> result" where
  "upvoteIssue actor i d =
     (case issue_findUnique i d of
        None \<Rightarrow> \<lparr>res = Sent 404 (ErrorMessage ''Issue not found''), db_after = d, effects = []\<rparr>
      | Some existingIssue \<Rightarrow>
          (case issue_increment i d of
             Inl err \<Rightarrow> \<lparr>res = Next err, db_after = d, effects = []\<rparr>
           | Inr (updatedIssue, d') \<Rightarrow>
               \<lparr>res = Sent 200 (IssuePlain updatedIssue), db_after = d', effects = []\<rparr>))"

subsection \<open>Creating an issue\<close>

text \<open>
  The body of \<open>POST /api/issues\<close>. A field the request leaves out is \<open>None\<close>.
\<close>

record issue_body =
  b_title :: "string option"
  b_description :: "string option"
  b_location :: "string option"
  b_latitude :: "real option"
  b_longitude :: "real option"
  b_category :: "string option"
  b_images :: "string list option"

text \<open>
  The two express-validator checks the routes use. Both read the field as a string, an
  absent field as the empty string.
\<close>

definition notEmpty :: "string option \<Rightarrow> bool" where
  "notEmpty v \<longleftrightarrow> (case v of None \<Rightarrow> False | Some s \<Rightarrow> s \<noteq> [])"

definition isIn :: "string list \<Rightarrow> string option \<Rightarrow> bool" where
  "isIn vs v \<longleftrightarrow> (case v of None \<Rightarrow> [] \<in> set vs | Some s \<Rightarrow> s \<in> set vs)"

text \<open>The validator chain of \<open>router.post('/')\<close>; the result is \<open>errors.array()\<close>.\<close>

definition createIssue_validators :: "issue_body \<Rightarrow> string list" where
  "createIssue_validators b =
     (if notEmpty (b_title b) then [] else [''Title is required'']) @
     (if notEmpty (b_description b) then [] else [''Description is required'']) @
     (if notEmpty (b_location b) then [] else [''Location is required'']) @
     (if isIn [''ROADS'', ''WATER'', ''ELECTRICITY'', ''SANITATION'', ''PUBLIC_SAFETY'',
               ''ENVIRONMENT'', ''PUBLIC_PROPERTY'', ''OTHER''] (b_category b)
      then [] else [''Invalid category''])"

text \<open>
  \<open>prisma.issue.create\<close>: the columns the handler passes, the identifier and creation
  time from the persistence layer, and the schema's defaults for \<open>status\<close> and
  \<open>upvotes\<close>, which the handler does not pass. A missing required column or a category
  outside the enum makes it throw.
\<close>

definition issue_create :: "issue_body \<Rightarrow> string \<Rightarrow> db \<Rightarrow> env \<Rightarrow> error + (issue \<times> db)" where
  "issue_create b rid d e =
     (case (b_title b, b_description b, b_location b, b_category b) of
        (Some t, Some ds, Some l, Some c) \<Rightarrow>
          if c \<in> set category_values
          then (let x = \<lparr>issue_id = new_id e, title = t, description = ds, location = l,
                          latitude = b_latitude b, longitude = b_longitude b, category = c,
                          status = default_status, upvotes = default_upvotes,
                          images = (case b_images b of None \<Rightarrow> [] | Some xs \<Rightarrow> xs),
                          reporterId = rid, createdAt = now e\<rparr>
                in Inr (x, d\<lparr>issues := issues d @ [x]\<rparr>))
          else Inl PrismaClientValidationError
      | _ \<Rightarrow> Inl PrismaClientValidationError)"

definition created_mail :: "env \<Rightarrow> issue \<Rightarrow> reporter_view option \<Rightarrow> effect list" where
  "created_mail e x r =
     (case r of
        None \<Rightarrow> [ConsoleError ''Failed to send issue creation email:'']
      | Some v \<Rightarrow> try_send e (SendIssueCreatedEmail (rv_email v) (rv_name v) x)
                   ''Failed to send issue creation email:'')"

definition createIssue :: "req_user \<Rightarrow> issue_body \<Rightarrow> db \<Rightarrow> env \<Rightarrow> result" where
  "createIssue actor body d e =
     (let errors = createIssue_validators body
      in if errors \<noteq> []
         then \<lparr>res = Sent 400 (Errors errors), db_after = d, effects = []\<rparr>
         else (case issue_create body (ru_id actor) d e of
                 Inl err \<Rightarrow> \<lparr>res = Next err, db_after = d, effects = []\<rparr>
               | Inr (x, d') \<Rightarrow>
                   \<lparr>res = Sent 201 (IssueWithReporter x (select_reporter x d')),
                    db_after = d',
                    effects = created_mail e x (select_reporter x d') @
                              try_send e (SendAdminNotificationEmail x)
                                ''Failed to send admin notification email:''\<rparr>))"

subsection \<open>Adding a comment\<close>

definition addComment_validators :: "string option \<Rightarrow> string list" where
  "addComment_validators c = (if notEmpty c then [] else [''Comment content is required''])"

definition comment_create :: "string option \<Rightarrow> string \<Rightarrow> string \<Rightarrow> db \<Rightarrow> env \<Rightarrow> error + (comment \<times> db)" where
  "comment_create c i a d e =
     (case c of
        None \<Rightarrow> Inl PrismaClientValidationError
      | Some t \<Rightarrow>
          (let x = \<lparr>comment_id = new_id e, content = t, issueId = i, authorId = a,
                    comment_createdAt = now e\<rparr>
           in Inr (x, d\<lparr>comments := comments d @ [x]\<rparr>)))"

definition addComment :: "req_user \<Rightarrow> string \<Rightarrow> string option \<Rightarrow> db \<Rightarrow> env \<Rightarrow> result" where
  "addComment actor i c d e =
     (let errors = addComment_validators c
      in if errors \<noteq> []
         then \<lparr>res = Sent 400 (Errors errors), db_after = d, effects = []\<rparr>
         else (case issue_findUnique i d of
                 None \<Rightarrow> \<lparr>res = Sent 404 (ErrorMessage ''Issue not found''), db_after = d, effects = []\<rparr>
               | Some existingIssue \<Rightarrow>
                   (case comment_create c i (ru_id actor) d e of
                      Inl err \<Rightarrow> \<lparr>res = Next err, db_after = d, effects = []\<rparr>
                    | Inr (x, d') \<Rightarrow>
                        \<lparr>res = Sent 201 (CommentWithAuthor x (user_findUnique (authorId x) d')),
                         db_after = d', effects = []\<rparr>)))"

subsection \<open>Listing issues\<close>

text \<open>
  The query string of \<open>GET /api/issues\<close>. \<open>page\<close> and \<open>limit\<close> are modelled for
  integer values: the handler computes \<open>page - 1\<close>, \<open>(page - 1) * limit\<close>,
  \<open>parseInt(limit)\<close> and \<open>Math.ceil(total / limit)\<close> on them, and on integers below
  \<open>2^53\<close> JavaScript's floating-point results are the exact ones. An absent parameter
  is \<open>None\<close> and takes the default of the destructuring.
\<close>

record issue_query =
  q_status :: "string option"
  q_category :: "string option"
  q_page :: "int option"
  q_limit :: "int option"

text \<open>The \<open>where\<close> object: a key is set only when the query value is truthy.\<close>

record issue_filter =
  f_status :: "string option"
  f_category :: "string option"

definition build_filter :: "issue_query \<Rightarrow> issue_filter" where
  "build_filter q =
     \<lparr>f_status = (if truthy (q_status q) then q_status q else None),
      f_category = (if truthy (q_category q) then q_category q else None)\<rparr>"

text \<open>
  Modelled from the spec: the check of the \<open>where\<close> values against the enum columns
  of the schema, which is missing with the schema file.
\<close>

definition filter_valid :: "issue_filter \<Rightarrow> bool" where
  "filter_valid w \<longleftrightarrow>
     (case f_status w of None \<Rightarrow> True | Some s \<Rightarrow> s \<in> set status_values) \<and>
     (case f_category w of None \<Rightarrow> True | Some c \<Rightarrow> c \<in> set category_values)"

definition matches :: "issue_filter \<Rightarrow> issue \<Rightarrow> bool" where
  "matches w x \<longleftrightarrow>
     (case f_status w of None \<Rightarrow> True | Some s \<Rightarrow> status x = s) \<and>
     (case f_category w of None \<Rightarrow> True | Some c \<Rightarrow> category x = c)"

text \<open>\<open>orderBy: {createdAt: 'desc'}\<close>; rows created at the same time keep their order.\<close>

definition newest_first :: "issue list \<Rightarrow> issue list" where
  "newest_first xs = sort_key (\<lambda>x. - int (createdAt x)) xs"

text \<open>
  \<open>prisma.issue.findMany({where, orderBy, skip, take})\<close>. Prisma refuses a negative
  \<open>skip\<close> and an enum filter value outside the enum; a negative \<open>take\<close> counts from the
  end of the ordered list.
\<close>

definition issue_findMany :: "issue_filter \<Rightarrow> int \<Rightarrow> int \<Rightarrow> db \<Rightarrow> error + issue list" where
  "issue_findMany w skip tk d =
     (if \<not> filter_valid w \<or> skip < 0 then Inl PrismaClientValidationError
      else let rows = newest_first (filter (matches w) (issues d))
           in Inr (if 0 \<le> tk then take (nat tk) (drop (nat skip) rows)
                   else rev (take (nat (- tk)) (drop (nat skip) (rev rows)))))"

definition issue_count :: "issue_filter \<Rightarrow> db \<Rightarrow> error + int" where
  "issue_count w d =
     (if \<not> filter_valid w then Inl PrismaClientValidationError
      else Inr (int (length (filter (matches w) (issues d)))))"

text \<open>
  \<open>Math.ceil(total / limit)\<close> for integers: division by zero gives \<open>Infinity\<close>, or
  \<open>NaN\<close> for \<open>0 / 0\<close>; \<open>total\<close> is a count and never negative.
\<close>

definition ceil_div :: "int \<Rightarrow> int \<Rightarrow> jsnum" where
  "ceil_div n m =
     (if m = 0 then (if n = 0 then NaN else PosInfinity)
      else Num (- ((- n) div m)))"

definition include_row :: "db \<Rightarrow> issue \<Rightarrow> issue \<times> user option \<times> nat" where
  "include_row d x =
     (x, user_findUnique (reporterId x) d, length (filter (\<lambda>c. issueId c = issue_id x) (comments d)))"

definition getAllIssues :: "issue_query \<Rightarrow> db \<Rightarrow> result" where
  "getAllIssues q d =
     (let page = (case q_page q of None \<Rightarrow> 1 | Some p \<Rightarrow> p);
          limit = (case q_limit q of None \<Rightarrow> 10 | Some l \<Rightarrow> l);
          skip = (page - 1) * limit;
          w = build_filter q
      in (case issue_findMany w skip limit d of
            Inl err \<Rightarrow> \<lparr>res = Next err, db_after = d, effects = []\<rparr>
          | Inr rows \<Rightarrow>
              (case issue_count w d of
                 Inl err \<Rightarrow> \<lparr>res = Next err, db_after = d, effects = []\<rparr>
               | Inr total_count \<Rightarrow>
                   \<lparr>res = Sent 200 (IssuePage (length rows)
                            \<lparr>pg_total = total_count, pg_page = page, pg_limit = limit,
                             pg_pages = ceil_div total_count limit\<rparr>
                            (map (include_row d) rows)),
                    db_after = d, effects = []\<rparr>)))"



section \<open>The user controller\<close>

record user_body =
  ub_name :: "string option"
  ub_profilePicture :: "string option"

definition user_update :: "string \<Rightarrow> user_body \<Rightarrow> db \<Rightarrow> error + (user \<times> db)" where
  "user_update i b d =
     (let f = (\<lambda>u. u\<lparr>user_name := (case ub_name b of None \<Rightarrow> user_name u | Some n \<Rightarrow> n),
                       profilePicture := (case ub_profilePicture b of
                                            None \<Rightarrow> profilePicture u | Some pic \<Rightarrow> Some pic)\<rparr>)
      in case user_findUnique i d of
           None \<Rightarrow> Inl PrismaRecordNotFound
         | Some u \<Rightarrow> Inr (f u, d\<lparr>users := map (\<lambda>v. if user_id v = i then f v else v) (users d)\<rparr>))"

definition getUserById :: "req_user \<Rightarrow> string \<Rightarrow> db \<Rightarrow> result" where
  "getUserById actor i d =
     (if i \<noteq> ru_id actor \<and> ru_role actor \<noteq> ''ADMIN''
      then \<lparr>res = Sent 403 (ErrorMessage ''Not authorized to view this user''),
            db_after = d, effects = []\<rparr>
      else (case user_findUnique i d of
              None \<Rightarrow> \<lparr>res = Sent 404 (ErrorMessage ''User not found''), db_after = d, effects = []\<rparr>
            | Some u \<Rightarrow>
                \<lparr>res = Sent 200 (UserWithCounts u
                         (length (filter (\<lambda>x. reporterId x = i) (issues d)))
                         (length (filter (\<lambda>c. authorId c = i) (comments d)))),
                 db_after = d, effects = []\<rparr>))"

definition updateUser :: "req_user \<Rightarrow> string \<Rightarrow> user_body \<Rightarrow> db \<Rightarrow> result" where
  "updateUser actor i body d =
     (if i \<noteq> ru_id actor \<and> ru_role actor \<noteq> ''ADMIN''
      then \<lparr>res = Sent 403 (ErrorMessage ''Not authorized to update this user''),
            db_after = d, effects = []\<rparr>
      else (case user_findUnique i d of
              None \<Rightarrow> \<lparr>res = Sent 404 (ErrorMessage ''User not found''), db_after = d, effects = []\<rparr>
            | Some existingUser \<Rightarrow>
                (case user_update i body d of
                   Inl err \<Rightarrow> \<lparr>res = Next err, db_after = d, effects = []\<rparr>
                 | Inr (updatedUser, d') \<Rightarrow>
                     \<lparr>res = Sent 200 (UserPlain updatedUser), db_after = d', effects = []\<rparr>)))"

section \<open>The authentication middleware\<close>

text \<open>
  \<open>jwt.verify(token, secret)\<close> belongs to the jsonwebtoken library. It either returns
  the decoded payload, of which the middleware reads \<open>id\<close>, or throws an error whose
  \<open>name\<close> the middleware inspects.
\<close>

datatype jwt_result =
    Decoded "string option"
  | JsonWebTokenError
  | TokenExpiredError
  | OtherError string

datatype auth_outcome =
    AuthSent nat payload
  | AuthNext req_user
  | AuthNextError error

text \<open>\<open>String.prototype.split\<close> with a one-character separator.\<close>

fun split_on :: "char \<Rightarrow> string \<Rightarrow> string list" where
  "split_on c [] = [[]]"
| "split_on c (x # xs) =
     (if x = c then [] # split_on c xs
      else (case split_on c xs of
              [] \<Rightarrow> [[x]]
            | w # ws \<Rightarrow> (x # w) # ws))"

definition startsWith :: "string \<Rightarrow> string \<Rightarrow> bool" where
  "startsWith s pre \<longleftrightarrow> take (length pre) s = pre"

text \<open>
  \<open>authHeader.split(' ')[1]\<close>; an index out of range reads \<open>undefined\<close>, which
  \<open>jwt.verify\<close> refuses with a JsonWebTokenError.
\<close>

definition bearer_token :: "string \<Rightarrow> string option" where
  "bearer_token h = (case split_on (CHR '' '') h of _ # t # _ \<Rightarrow> Some t | _ \<Rightarrow> None)"

definition auth_middleware :: "(string \<Rightarrow> jwt_result) \<Rightarrow> string option \<Rightarrow> db \<Rightarrow> auth_outcome" where
  "auth_middleware verify authHeader d =
     (case authHeader of
        None \<Rightarrow> AuthSent 401 (ErrorMessage ''Not authenticated. Please log in'')
      | Some h \<Rightarrow>
          if h = [] \<or> \<not> startsWith h ''Bearer ''
          then AuthSent 401 (ErrorMessage ''Not authenticated. Please log in'')
          else (case (case bearer_token h of None \<Rightarrow> JsonWebTokenError | Some t \<Rightarrow> verify t) of
                  JsonWebTokenError \<Rightarrow>
                    AuthSent 401 (ErrorMessage ''Invalid token. Please log in again'')
                | TokenExpiredError \<Rightarrow>
                    AuthSent 401 (ErrorMessage ''Your token has expired. Please log in again'')
                | OtherError n \<Rightarrow> AuthNextError (VerifyError n)
                | Decoded None \<Rightarrow> AuthNextError PrismaClientValidationError
                | Decoded (Some uid) \<Rightarrow>
                    (case user_findUnique uid d of
                       None \<Rightarrow> AuthSent 401
                                 (ErrorMessage ''The user belonging to this token no longer exists'')
                     | Some u \<Rightarrow> AuthNext \<lparr>ru_id = user_id u, ru_email = user_email u,
                                            ru_name = user_name u, ru_role = user_role u\<rparr>)))"

section \<open>The issue routes\<close>

text \<open>
  The route table of the issue router for the handlers above: \<open>GET /\<close> is public, the
  five mutating routes run the authentication middleware first, and the two routes with
  a body run their validator chain, whose result the handler reads.
\<close>

datatype request =
    GET_issues issue_query
  | POST_issues "string option" issue_body
  | PUT_issue "string option" string issue_patch
  | DELETE_issue "string option" string
  | POST_upvote "string option" string
  | POST_comment "string option" string "string option"

definition authMiddleware :: "(string \<Rightarrow> jwt_result) \<Rightarrow> string option \<Rightarrow> db \<Rightarrow> (req_user \<Rightarrow> result) \<Rightarrow> result" where
  "authMiddleware verify authHeader d handler =
     (case auth_middleware verify authHeader d of
        AuthSent code p \<Rightarrow> \<lparr>res = Sent code p, db_after = d, effects = []\<rparr>
      | AuthNextError err \<Rightarrow> \<lparr>res = Next err, db_after = d, effects = []\<rparr>
      | AuthNext u \<Rightarrow> handler u)"

definition router :: "(string \<Rightarrow> jwt_result) \<Rightarrow> env \<Rightarrow> request \<Rightarrow> db \<Rightarrow> result" where
  "router verify e r d =
     (case r of
        GET_issues q \<Rightarrow> getAllIssues q d
      | POST_issues h body \<Rightarrow> authMiddleware verify h d (\<lambda>u. createIssue u body d e)
      | PUT_issue h i body \<Rightarrow> authMiddleware verify h d (\<lambda>u. updateIssue u i body d e)
      | DELETE_issue h i \<Rightarrow> authMiddleware verify h d (\<lambda>u. deleteIssue u i d)
      | POST_upvote h i \<Rightarrow> authMiddleware verify h d (\<lambda>u. upvoteIssue u i d)
      | POST_comment h i c \<Rightarrow> authMiddleware verify h d (\<lambda>u. addComment u i c d e))"

text \<open>A sequence of requests served one after the other, each in its own environment.\<close>

fun serve :: "(string \<Rightarrow> jwt_result) \<Rightarrow> (env \<times> request) list \<Rightarrow> db \<Rightarrow> db" where
  "serve verify [] d = d"
| "serve verify ((e, r) # rs) d = serve verify rs (db_after (router verify e r d))"

text \<open>The same actor or different actors upvoting one issue, call after call.\<close>

fun upvote_calls :: "req_user list \<Rightarrow> string \<Rightarrow> db \<Rightarrow> db" where
  "upvote_calls [] i d = d"
| "upvote_calls (a # as) i d = upvote_calls as i (db_after (upvoteIssue a i d))"

section \<open>Sample data\<close>

definition alice :: user where
  "alice = \<lparr>user_id = ''u1'', user_name = ''Alice'', user_email = ''alice@example.org'',
            user_role = ''CITIZEN'', profilePicture = None\<rparr>"

definition bob :: user where
  "bob = \<lparr>user_id = ''u2'', user_name = ''Bob'', user_email = ''bob@example.org'',
          user_role = ''CITIZEN'', profilePicture = None\<rparr>"

definition olga :: user where
  "olga = \<lparr>user_id = ''u3'', user_name = ''Olga'', user_email = ''olga@example.org'',
           user_role = ''OFFICIAL'', profilePicture = None\<rparr>"

definition as_actor :: "user \<Rightarrow> req_user" where
  "as_actor u = \<lparr>ru_id = user_id u, ru_email = user_email u, ru_name = user_name u,
                 ru_role = user_role u\<rparr>"

definition pothole :: issue where
  "pothole = \<lparr>issue_id = ''i1'', title = ''Pothole'', description = ''Big pothole on 5th'',
              location = ''5th Ave'', latitude = None, longitude = None, category = ''ROADS'',
              status = ''REPORTED'', upvotes = 0, images = [], reporterId = ''u1'',
              createdAt = 1\<rparr>"

definition remark :: comment where
  "remark = \<lparr>comment_id = ''c1'', content = ''Still there'', issueId = ''i1'',
             authorId = ''u2'', comment_createdAt = 2\<rparr>"

definition town :: db where
  "town = \<lparr>users = [alice, bob, olga], issues = [pothole], comments = [remark]\<rparr>"

definition quiet_env :: env where
  "quiet_env = \<lparr>new_id = ''i2'', now = 3, mail_ok = (\<lambda>m. True)\<rparr>"

definition failing_env :: env where
  "failing_env = \<lparr>new_id = ''i2'', now = 3, mail_ok = (\<lambda>m. False)\<rparr>"

definition no_change :: issue_patch where
  "no_change = \<lparr>p_title = None, p_description = None, p_status = None, p_category = None\<rparr>"

definition resolve :: issue_patch where
  "resolve = \<lparr>p_title = None, p_description = None, p_status = Some ''RESOLVED'',
              p_category = None\<rparr>"

definition alice_view :: reporter_view where
  "alice_view = \<lparr>rv_id = ''u1'', rv_name = ''Alice'', rv_email = ''alice@example.org''\<rparr>"

definition bogus :: issue_patch where
  "bogus = \<lparr>p_title = None, p_description = None, p_status = Some ''DONE'',
            p_category = None\<rparr>"

definition pothole_body :: issue_body where
  "pothole_body = \<lparr>b_title = Some ''Pothole'', b_description = Some ''Big pothole on 5th'',
      b_location = Some ''5th Ave'', b_latitude = None, b_longitude = None,
      b_category = Some ''ROADS'', b_images = None\<rparr>"

definition untitled_body :: issue_body where
  "untitled_body = \<lparr>b_title = Some [], b_description = Some ''Big pothole on 5th'',
      b_location = Some ''5th Ave'', b_latitude = None, b_longitude = None,
      b_category = Some ''ROADS'', b_images = None\<rparr>"

definition registry :: db where
  "registry = \<lparr>users = [alice, bob, olga], issues = [], comments = []\<rparr>"





text \<open>A token verifier for the examples: three good tokens, an expired one, the rest invalid.\<close>

definition sample_verify :: "string \<Rightarrow> jwt_result" where
  "sample_verify t =
     (if t = ''alice-token'' then Decoded (Some ''u1'')
      else if t = ''olga-token'' then Decoded (Some ''u3'')
      else if t = ''gone-token'' then Decoded (Some ''u9'')
      else if t = ''old-token'' then TokenExpiredError
      else JsonWebTokenError)"

section \<open>The status invariant\<close>

definition status_ok :: "db \<Rightarrow> bool" where
  "status_ok d \<longleftrightarrow> list_all (\<lambda>x. status x \<in> set status_values) (issues d)"

section \<open>Lookup after a write\<close>

lemma find_update_rows:
  assumes "\<And>x. issue_id (f x) = issue_id x"
  shows "find (\<lambda>x. issue_id x = i) (update_rows i f xs) =
         map_option f (find (\<lambda>x. issue_id x = i) xs)"
  using assms by (induction xs) (auto simp: update_rows_def)

lemma issue_id_apply_patch: "issue_id (apply_patch p x) = issue_id x"
  by (simp add: apply_patch_def)

lemma issue_id_increment: "issue_id (increment_upvotes x) = issue_id x"
  by (simp add: increment_upvotes_def)

lemma findUnique_comment_deleteMany:
  "issue_findUnique i (comment_deleteMany j d) = issue_findUnique i d"
  by (simp add: issue_findUnique_def comment_deleteMany_def)

lemma find_filter_out:
  "find (\<lambda>x. issue_id x = i) (filter (\<lambda>y. issue_id y \<noteq> i) xs) = None"
  by (induction xs) auto

lemma town_pothole: "issue_findUnique ''i1'' town = Some pothole"
  by (simp add: issue_findUnique_def town_def pothole_def)

section \<open>Who may update and who may delete\<close>

text \<open>
  Claim C2. On an existing issue, an update is answered with 200 only when the actor is
  the reporter, an OFFICIAL or an ADMIN, and a delete only when the actor is the reporter
  or an ADMIN. Every other actor is answered with 403, and the store, the issue with it,
  is left as it was.
\<close>

theorem update_delete_authorization:
  assumes "issue_findUnique i d = Some x"
  shows "((\<exists>p. res (updateIssue actor i body d e) = Sent 200 p) \<longrightarrow>
            reporterId x = ru_id actor \<or> ru_role actor = ''OFFICIAL'' \<or> ru_role actor = ''ADMIN'') \<and>
         ((\<exists>p. res (deleteIssue actor i d) = Sent 200 p) \<longrightarrow>
            reporterId x = ru_id actor \<or> ru_role actor = ''ADMIN'') \<and>
         (\<not> (reporterId x = ru_id actor \<or> ru_role actor = ''OFFICIAL'' \<or> ru_role actor = ''ADMIN'') \<longrightarrow>
            res (updateIssue actor i body d e) =
              Sent 403 (ErrorMessage ''Not authorized to update this issue'') \<and>
            db_after (updateIssue actor i body d e) = d \<and>
            effects (updateIssue actor i body d e) = []) \<and>
         (\<not> (reporterId x = ru_id actor \<or> ru_role actor = ''ADMIN'') \<longrightarrow>
            res (deleteIssue actor i d) =
              Sent 403 (ErrorMessage ''Not authorized to delete this issue'') \<and>
            db_after (deleteIssue actor i d) = d \<and>
            effects (deleteIssue actor i d) = [])"
  using assms by (auto simp: updateIssue_def deleteIssue_def)

text \<open>
  Bob, a citizen who did not report the pothole, is refused both; Olga, an official, is
  refused the delete.
\<close>

theorem update_delete_authorization_witness:
  "issue_findUnique ''i1'' town = Some pothole \<and>
   res (updateIssue (as_actor bob) ''i1'' no_change town quiet_env) =
     Sent 403 (ErrorMessage ''Not authorized to update this issue'') \<and>
   db_after (updateIssue (as_actor bob) ''i1'' no_change town quiet_env) = town \<and>
   res (deleteIssue (as_actor bob) ''i1'' town) =
     Sent 403 (ErrorMessage ''Not authorized to delete this issue'') \<and>
   db_after (deleteIssue (as_actor bob) ''i1'' town) = town \<and>
   res (deleteIssue (as_actor olga) ''i1'' town) =
     Sent 403 (ErrorMessage ''Not authorized to delete this issue'')"
  using update_delete_authorization [OF town_pothole, of "as_actor bob" no_change quiet_env]
        update_delete_authorization [OF town_pothole, of "as_actor olga" no_change quiet_env]
        town_pothole
  by (simp add: as_actor_def bob_def olga_def pothole_def)

section \<open>Deleting an issue\<close>

text \<open>
  Claim C3. A delete of an existing issue by its reporter or an ADMIN is answered with
  200. It first removes every comment whose \<open>issueId\<close> is the issue's id, the issue row
  still being there, and then removes the issue from that store. In the store it leaves,
  no comment refers to the id and no issue has it; the users, the other issues and the
  other comments are as before.
\<close>

theorem delete_removes_comments_first:
  assumes "issue_findUnique i d = Some x"
      and "reporterId x = ru_id actor \<or> ru_role actor = ''ADMIN''"
  shows "res (deleteIssue actor i d) = Sent 200 (SuccessMessage ''Issue deleted successfully'') \<and>
         issue_delete i (comment_deleteMany i d) = Inr (db_after (deleteIssue actor i d)) \<and>
         (\<forall>c \<in> set (comments (comment_deleteMany i d)). issueId c \<noteq> i) \<and>
         issue_findUnique i (comment_deleteMany i d) = Some x \<and>
         (\<forall>c \<in> set (comments (db_after (deleteIssue actor i d))). issueId c \<noteq> i) \<and>
         issue_findUnique i (db_after (deleteIssue actor i d)) = None \<and>
         comments (db_after (deleteIssue actor i d)) = filter (\<lambda>c. issueId c \<noteq> i) (comments d) \<and>
         issues (db_after (deleteIssue actor i d)) = filter (\<lambda>y. issue_id y \<noteq> i) (issues d) \<and>
         users (db_after (deleteIssue actor i d)) = users d"
  using assms
  by (auto simp: deleteIssue_def issue_delete_def findUnique_comment_deleteMany Let_def)
     (auto simp: comment_deleteMany_def issue_findUnique_def find_filter_out)

text \<open>Alice deletes her pothole report; Bob's comment on it goes with it.\<close>

theorem delete_removes_comments_first_witness:
  "issue_findUnique ''i1'' town = Some pothole \<and>
   reporterId pothole = ru_id (as_actor alice) \<and>
   comments town = [remark] \<and> issueId remark = ''i1'' \<and>
   res (deleteIssue (as_actor alice) ''i1'' town) =
     Sent 200 (SuccessMessage ''Issue deleted successfully'') \<and>
   comments (db_after (deleteIssue (as_actor alice) ''i1'' town)) = [] \<and>
   issues (db_after (deleteIssue (as_actor alice) ''i1'' town)) = []"
  using delete_removes_comments_first [OF town_pothole, of "as_actor alice"] town_pothole
  by (simp add: as_actor_def alice_def pothole_def remark_def town_def)

section \<open>Upvotes\<close>

lemma upvote_once:
  assumes "issue_findUnique i d = Some x"
  shows "res (upvoteIssue a i d) = Sent 200 (IssuePlain (x\<lparr>upvotes := upvotes x + 1\<rparr>))"
    and "issue_findUnique i (db_after (upvoteIssue a i d)) = Some (x\<lparr>upvotes := upvotes x + 1\<rparr>)"
  using assms
  by (auto simp: upvoteIssue_def issue_increment_def issue_findUnique_def find_update_rows
        issue_id_increment increment_upvotes_def)

lemma upvote_calls_total:
  assumes "issue_findUnique i d = Some x"
  shows "issue_findUnique i (upvote_calls as i d) =
         Some (x\<lparr>upvotes := upvotes x + int (length as)\<rparr>)"
  using assms
proof (induction as arbitrary: d x)
  case Nil
  then show ?case by simp
next
  case (Cons a as)
  from upvote_once(2) [OF Cons.prems, of a]
  have "issue_findUnique i (upvote_calls as i (db_after (upvoteIssue a i d))) =
        Some (x\<lparr>upvotes := upvotes x + 1\<rparr>
                \<lparr>upvotes := upvotes (x\<lparr>upvotes := upvotes x + 1\<rparr>) + int (length as)\<rparr>)"
    by (rule Cons.IH)
  then show ?case by (simp add: algebra_simps)
qed

text \<open>
  Claim C6. On an existing issue, an upvote by any actor is answered with 200 and leaves
  the issue with its counter one higher; the actor plays no part. A run of calls by any
  actors, repeated or not, leaves the counter higher by the number of calls, so it never
  decreases.
\<close>

theorem upvotes_add_up:
  assumes "issue_findUnique i d = Some x"
  shows "res (upvoteIssue a i d) = Sent 200 (IssuePlain (x\<lparr>upvotes := upvotes x + 1\<rparr>)) \<and>
         issue_findUnique i (db_after (upvoteIssue a i d)) = Some (x\<lparr>upvotes := upvotes x + 1\<rparr>) \<and>
         (\<exists>x'. issue_findUnique i (upvote_calls as i d) = Some x' \<and>
               x' = x\<lparr>upvotes := upvotes x + int (length as)\<rparr> \<and>
               upvotes x \<le> upvotes x')"
  using upvote_once [OF assms, of a] upvote_calls_total [OF assms, of as] by simp

text \<open>Bob upvotes the pothole twice and Olga once: the counter goes from 0 to 3.\<close>

theorem upvotes_add_up_witness:
  "issue_findUnique ''i1'' town = Some pothole \<and>
   upvotes pothole = 0 \<and>
   res (upvoteIssue (as_actor bob) ''i1'' town) = Sent 200 (IssuePlain (pothole\<lparr>upvotes := 1\<rparr>)) \<and>
   issue_findUnique ''i1'' (upvote_calls [as_actor bob, as_actor bob, as_actor olga] ''i1'' town) =
     Some (pothole\<lparr>upvotes := 3\<rparr>)"
  using upvotes_add_up [OF town_pothole, of "as_actor bob" "[as_actor bob, as_actor bob, as_actor olga]"]
        town_pothole
  by (simp add: pothole_def)

section \<open>Updating an issue\<close>

lemma update_ok_cases:
  assumes "res (updateIssue actor i body d e) = Sent 200 p"
  obtains x where "issue_findUnique i d = Some x"
    and "patch_valid body"
    and "reporterId x = ru_id actor \<or> ru_role actor = ''OFFICIAL'' \<or> ru_role actor = ''ADMIN''"
    and "db_after (updateIssue actor i body d e) =
           d\<lparr>issues := update_rows i (apply_patch body) (issues d)\<rparr>"
    and "p = IssueWithReporter (apply_patch body x) (select_reporter x d)"
    and "effects (updateIssue actor i body d e) =
          (if truthy (p_status body) \<and> p_status body \<noteq> Some (status x)
           then status_mail e (apply_patch body x) (select_reporter x d) (status x)
                  (case p_status body of None \<Rightarrow> [] | Some s \<Rightarrow> s)
           else [])"
  using assms
  by (auto simp: updateIssue_def issue_update_def Let_def select_reporter_def user_findUnique_def
        apply_patch_def split: option.splits if_splits)

lemma valid_status_truthy: "s \<in> set status_values \<Longrightarrow> s \<noteq> []"
  by (auto simp: status_values_def)

lemma update_mail_indep:
  "res (updateIssue actor i body d (e\<lparr>mail_ok := f\<rparr>)) = res (updateIssue actor i body d e) \<and>
   db_after (updateIssue actor i body d (e\<lparr>mail_ok := f\<rparr>)) =
     db_after (updateIssue actor i body d e)"
  by (simp add: updateIssue_def Let_def split: option.splits sum.splits prod.splits)

lemma town_resolve:
  "res (updateIssue (as_actor olga) ''i1'' resolve town e) =
     Sent 200 (IssueWithReporter (pothole\<lparr>status := ''RESOLVED''\<rparr>) (Some alice_view))"
  by (simp add: updateIssue_def issue_findUnique_def issue_update_def patch_valid_def
        apply_patch_def select_reporter_def user_findUnique_def resolve_def town_def
        pothole_def as_actor_def olga_def alice_def bob_def alice_view_def status_values_def
        truthy_def Let_def)

lemma town_alice: "user_findUnique (reporterId pothole) town = Some alice"
  by (simp add: user_findUnique_def town_def pothole_def alice_def)

text \<open>
  Claim C10. After an update answered with 200, the issue differs from what it was in at
  most its title, description, status and category: its id, reporterId, upvotes,
  location, latitude, longitude, images and creation time are the same, and the row in
  the response is the row in the store.
\<close>

theorem update_frame:
  assumes "res (updateIssue actor i body d e) = Sent 200 p"
      and "issue_findUnique i d = Some x"
  shows "\<exists>x'. issue_findUnique i (db_after (updateIssue actor i body d e)) = Some x' \<and>
           p = IssueWithReporter x' (select_reporter x d) \<and>
           x' = x\<lparr>title := title x', description := description x', status := status x',
                  category := category x'\<rparr> \<and>
           issue_id x' = issue_id x \<and> reporterId x' = reporterId x \<and> upvotes x' = upvotes x \<and>
           location x' = location x \<and> latitude x' = latitude x \<and> longitude x' = longitude x \<and>
           images x' = images x \<and> createdAt x' = createdAt x"
proof -
  from assms(1) obtain y where y: "issue_findUnique i d = Some y"
    and db: "db_after (updateIssue actor i body d e) =
               d\<lparr>issues := update_rows i (apply_patch body) (issues d)\<rparr>"
    and p: "p = IssueWithReporter (apply_patch body y) (select_reporter y d)"
    by (rule update_ok_cases)
  from y assms(2) have [simp]: "y = x" by simp
  have "issue_findUnique i (db_after (updateIssue actor i body d e)) = Some (apply_patch body x)"
    using assms(2) by (simp add: db issue_findUnique_def find_update_rows issue_id_apply_patch)
  then show ?thesis using p by (simp add: apply_patch_def)
qed

text \<open>Olga sets the pothole to RESOLVED: only the status moves.\<close>

theorem update_frame_witness:
  "res (updateIssue (as_actor olga) ''i1'' resolve town quiet_env) =
     Sent 200 (IssueWithReporter (pothole\<lparr>status := ''RESOLVED''\<rparr>) (Some alice_view)) \<and>
   issue_findUnique ''i1'' town = Some pothole \<and>
   issue_findUnique ''i1'' (db_after (updateIssue (as_actor olga) ''i1'' resolve town quiet_env)) =
     Some (pothole\<lparr>status := ''RESOLVED''\<rparr>)"
  using update_frame [OF town_resolve town_pothole, of quiet_env] town_resolve [of quiet_env]
        town_pothole
  by auto

text \<open>
  Claim C4. After an update answered with 200 of an issue whose reporter is on record:
  when the body carries a status and it differs from the stored one, exactly one status
  mail goes to the mailer, addressed to the reporter and carrying the old and the new
  status; when the body carries no status, or the stored one, none does. When the mailer
  throws, the handler writes one line to the error log after the mail. Whatever the
  mailer does, the response and the store are the same.
\<close>

theorem status_mail_once:
  assumes "res (updateIssue actor i body d e) = Sent 200 p"
      and "issue_findUnique i d = Some x"
      and "user_findUnique (reporterId x) d = Some u"
  shows "effects (updateIssue actor i body d e) =
           (case p_status body of
              None \<Rightarrow> []
            | Some s \<Rightarrow>
                if s = status x then []
                else if mail_ok e (SendStatusUpdateEmail (user_email u) (user_name u)
                                     (apply_patch body x) (status x) s)
                     then [SendStatusUpdateEmail (user_email u) (user_name u)
                             (apply_patch body x) (status x) s]
                     else [SendStatusUpdateEmail (user_email u) (user_name u)
                             (apply_patch body x) (status x) s,
                           ConsoleError ''Failed to send status update email:'']) \<and>
         res (updateIssue actor i body d (e\<lparr>mail_ok := f\<rparr>)) = Sent 200 p \<and>
         db_after (updateIssue actor i body d (e\<lparr>mail_ok := f\<rparr>)) =
           db_after (updateIssue actor i body d e)"
proof -
  from assms(1) obtain y where y: "issue_findUnique i d = Some y"
    and pv: "patch_valid body"
    and eff: "effects (updateIssue actor i body d e) =
          (if truthy (p_status body) \<and> p_status body \<noteq> Some (status y)
           then status_mail e (apply_patch body y) (select_reporter y d) (status y)
                  (case p_status body of None \<Rightarrow> [] | Some s \<Rightarrow> s)
           else [])"
    by (rule update_ok_cases)
  from y assms(2) have yx: "y = x" by simp
  have tr: "truthy (p_status body) \<longleftrightarrow> p_status body \<noteq> None"
    using pv
    by (auto simp: truthy_def patch_valid_def dest: valid_status_truthy split: option.splits)
  have sel: "select_reporter x d =
             Some \<lparr>rv_id = user_id u, rv_name = user_name u, rv_email = user_email u\<rparr>"
    using assms(3) by (simp add: select_reporter_def)
  have "effects (updateIssue actor i body d e) =
           (case p_status body of
              None \<Rightarrow> []
            | Some s \<Rightarrow>
                if s = status x then []
                else if mail_ok e (SendStatusUpdateEmail (user_email u) (user_name u)
                                     (apply_patch body x) (status x) s)
                     then [SendStatusUpdateEmail (user_email u) (user_name u)
                             (apply_patch body x) (status x) s]
                     else [SendStatusUpdateEmail (user_email u) (user_name u)
                             (apply_patch body x) (status x) s,
                           ConsoleError ''Failed to send status update email:''])"
    unfolding eff yx tr sel by (cases "p_status body") (auto simp: status_mail_def try_send_def)
  then show ?thesis
    using update_mail_indep [where e = e and f = f and actor = actor and i = i and body = body
            and d = d] assms(1)
    by simp
qed

text \<open>
  Olga resolves the pothole while the mailer is down: one mail to Alice with REPORTED and
  RESOLVED is attempted, the failure is logged, and the answer is still 200.
\<close>

theorem status_mail_once_witness:
  "res (updateIssue (as_actor olga) ''i1'' resolve town failing_env) =
     Sent 200 (IssueWithReporter (pothole\<lparr>status := ''RESOLVED''\<rparr>) (Some alice_view)) \<and>
   issue_findUnique ''i1'' town = Some pothole \<and>
   user_findUnique (reporterId pothole) town = Some alice \<and>
   effects (updateIssue (as_actor olga) ''i1'' resolve town failing_env) =
     [SendStatusUpdateEmail ''alice@example.org'' ''Alice'' (pothole\<lparr>status := ''RESOLVED''\<rparr>)
        ''REPORTED'' ''RESOLVED'',
      ConsoleError ''Failed to send status update email:'']"
  using status_mail_once [OF town_resolve town_pothole town_alice, of failing_env]
        town_resolve [of failing_env] town_pothole town_alice
  by (simp add: resolve_def apply_patch_def pothole_def alice_def failing_env_def)

section \<open>The status of an issue stays in the enum\<close>

lemma status_ok_update_rows:
  assumes "status_ok d"
      and "\<And>x. status x \<in> set status_values \<Longrightarrow> status (f x) \<in> set status_values"
  shows "status_ok (d\<lparr>issues := update_rows i f (issues d)\<rparr>)"
  using assms by (auto simp: status_ok_def update_rows_def list_all_iff)

lemma status_apply_patch:
  "patch_valid p \<Longrightarrow> status x \<in> set status_values \<Longrightarrow>
   status (apply_patch p x) \<in> set status_values"
  by (auto simp: patch_valid_def apply_patch_def split: option.splits)

lemma status_ok_updateIssue: "status_ok d \<Longrightarrow> status_ok (db_after (updateIssue a i b d e))"
  by (auto simp: updateIssue_def issue_update_def Let_def status_ok_update_rows
        status_apply_patch split: option.splits)

lemma status_ok_deleteIssue: "status_ok d \<Longrightarrow> status_ok (db_after (deleteIssue a i d))"
  by (auto simp: deleteIssue_def issue_delete_def Let_def comment_deleteMany_def status_ok_def
        list_all_iff issue_findUnique_def split: option.splits)

lemma status_ok_upvoteIssue: "status_ok d \<Longrightarrow> status_ok (db_after (upvoteIssue a i d))"
  by (auto simp: upvoteIssue_def issue_increment_def status_ok_update_rows
        increment_upvotes_def split: option.splits)

lemma status_ok_createIssue: "status_ok d \<Longrightarrow> status_ok (db_after (createIssue a b d e))"
  by (auto simp: createIssue_def issue_create_def Let_def status_ok_def default_status_def
        status_values_def split: option.splits)

lemma status_ok_addComment: "status_ok d \<Longrightarrow> status_ok (db_after (addComment a i c d e))"
  by (auto simp: addComment_def comment_create_def Let_def status_ok_def split: option.splits)

lemma db_after_getAllIssues: "db_after (getAllIssues q d) = d"
  by (auto simp: getAllIssues_def Let_def split: sum.splits)

lemma status_ok_authMiddleware:
  assumes "status_ok d" and "\<And>u. status_ok (db_after (h u))"
  shows "status_ok (db_after (authMiddleware verify hdr d h))"
  using assms by (auto simp: authMiddleware_def split: auth_outcome.splits)

lemma status_ok_router: "status_ok d \<Longrightarrow> status_ok (db_after (router verify e r d))"
  by (cases r)
     (simp_all add: router_def db_after_getAllIssues status_ok_authMiddleware
        status_ok_updateIssue status_ok_deleteIssue status_ok_upvoteIssue status_ok_createIssue
        status_ok_addComment)

lemma status_ok_serve: "status_ok d \<Longrightarrow> status_ok (serve verify rs d)"
proof (induction rs arbitrary: d)
  case Nil
  then show ?case by simp
next
  case (Cons r rs)
  obtain e q where "r = (e, q)" by (cases r)
  with Cons show ?case by (simp add: status_ok_router)
qed

lemma update_bad_status:
  assumes "p_status body = Some s" and "s \<notin> set status_values"
  shows "db_after (updateIssue actor i body d e) = d"
    and "res (updateIssue actor i body d e) \<noteq> Sent 200 p"
    and "issue_findUnique i d = Some x \<Longrightarrow>
         reporterId x = ru_id actor \<or> ru_role actor = ''OFFICIAL'' \<or> ru_role actor = ''ADMIN'' \<Longrightarrow>
         res (updateIssue actor i body d e) = Next PrismaClientValidationError"
  using assms
  by (auto simp: updateIssue_def issue_update_def patch_valid_def Let_def split: option.splits)

text \<open>
  Claim C5. Whatever requests the issue routes serve, a store in which every issue has
  one of the five statuses stays such a store; starting from a store without issues,
  every issue ever present has one of the five. An update whose body carries a status
  outside the five changes nothing in the store and is never answered with 200: from an
  actor allowed to update the issue it ends in the persistence layer's validation error.
\<close>

theorem status_stays_in_enum:
  "(status_ok d \<longrightarrow> status_ok (serve verify rs d)) \<and>
   (\<forall>x \<in> set (issues (serve verify rs \<lparr>users = us, issues = [], comments = cs\<rparr>)).
      status x \<in> set status_values) \<and>
   (\<forall>s. p_status body = Some s \<and> s \<notin> set status_values \<longrightarrow>
      db_after (updateIssue actor i body d e) = d \<and>
      (\<forall>p. res (updateIssue actor i body d e) \<noteq> Sent 200 p) \<and>
      (\<forall>x. issue_findUnique i d = Some x \<and>
           (reporterId x = ru_id actor \<or> ru_role actor = ''OFFICIAL'' \<or> ru_role actor = ''ADMIN'') \<longrightarrow>
           res (updateIssue actor i body d e) = Next PrismaClientValidationError))"
proof -
  have "status_ok \<lparr>users = us, issues = [], comments = cs\<rparr>"
    by (simp add: status_ok_def)
  then have "status_ok (serve verify rs \<lparr>users = us, issues = [], comments = cs\<rparr>)"
    by (rule status_ok_serve)
  then have "\<forall>x \<in> set (issues (serve verify rs \<lparr>users = us, issues = [], comments = cs\<rparr>)).
      status x \<in> set status_values"
    by (simp add: status_ok_def list_all_iff)
  then show ?thesis
    using status_ok_serve [of d verify rs]
          update_bad_status [where body = body and actor = actor and i = i and d = d and e = e]
    by blast
qed

lemma town_status_ok: "status_ok town"
  by (simp add: status_ok_def town_def pothole_def status_values_def)

lemma served_example:
  "issues (serve sample_verify
     [(quiet_env, POST_issues (Some ''Bearer alice-token'') pothole_body),
      (quiet_env, PUT_issue (Some ''Bearer olga-token'') ''i2'' resolve),
      (quiet_env, PUT_issue (Some ''Bearer olga-token'') ''i2'' bogus)]
     \<lparr>users = [alice, bob, olga], issues = [], comments = []\<rparr>) =
   [\<lparr>issue_id = ''i2'', title = ''Pothole'', description = ''Big pothole on 5th'',
      location = ''5th Ave'', latitude = None, longitude = None, category = ''ROADS'',
      status = ''RESOLVED'', upvotes = 0, images = [], reporterId = ''u1'', createdAt = 3\<rparr>]"
  by (simp add: router_def authMiddleware_def auth_middleware_def startsWith_def bearer_token_def
       sample_verify_def user_findUnique_def alice_def bob_def olga_def
       createIssue_def createIssue_validators_def notEmpty_def isIn_def pothole_body_def
       issue_create_def category_values_def default_status_def default_upvotes_def quiet_env_def
       updateIssue_def issue_findUnique_def issue_update_def patch_valid_def status_values_def
       apply_patch_def update_rows_def resolve_def bogus_def truthy_def Let_def)

text \<open>
  Alice reports a pothole, Olga resolves it, and Olga's next update, to the status DONE,
  is refused: the issue stays RESOLVED.
\<close>

theorem status_stays_in_enum_witness:
  "status_ok town \<and>
   p_status bogus = Some ''DONE'' \<and> ''DONE'' \<notin> set status_values \<and>
   issue_findUnique ''i1'' town = Some pothole \<and> ru_role (as_actor olga) = ''OFFICIAL'' \<and>
   res (updateIssue (as_actor olga) ''i1'' bogus town quiet_env) = Next PrismaClientValidationError \<and>
   db_after (updateIssue (as_actor olga) ''i1'' bogus town quiet_env) = town \<and>
   map status (issues (serve sample_verify
     [(quiet_env, POST_issues (Some ''Bearer alice-token'') pothole_body),
      (quiet_env, PUT_issue (Some ''Bearer olga-token'') ''i2'' resolve),
      (quiet_env, PUT_issue (Some ''Bearer olga-token'') ''i2'' bogus)]
     \<lparr>users = [alice, bob, olga], issues = [], comments = []\<rparr>)) = [''RESOLVED''] \<and>
   ''RESOLVED'' \<in> set status_values"
  using status_stays_in_enum [of town sample_verify
          "[(quiet_env, POST_issues (Some ''Bearer alice-token'') pothole_body),
            (quiet_env, PUT_issue (Some ''Bearer olga-token'') ''i2'' resolve),
            (quiet_env, PUT_issue (Some ''Bearer olga-token'') ''i2'' bogus)]"
          "[alice, bob, olga]" "[]" bogus "as_actor olga" "''i1''" quiet_env]
        town_status_ok town_pothole served_example
  by (simp add: bogus_def status_values_def as_actor_def olga_def)

section \<open>Creating an issue\<close>

lemma validators_empty_iff:
  "createIssue_validators b = [] \<longleftrightarrow>
     (\<exists>t ds l c. b_title b = Some t \<and> t \<noteq> [] \<and> b_description b = Some ds \<and> ds \<noteq> [] \<and>
        b_location b = Some l \<and> l \<noteq> [] \<and> b_category b = Some c \<and> c \<in> set category_values)"
  by (auto simp: createIssue_validators_def notEmpty_def isIn_def category_values_def
      split: option.splits)

text \<open>
  Claim C7. When the title, the description or the location of the body is absent or
  empty, or the category is not one of the eight, creation is answered with 400 and a
  non-empty list of validation errors, and the store is unchanged. In every other case it
  is answered with 201, and the issue in the response, which is the one row added to the
  store, has status REPORTED and the actor's id as reporterId.
\<close>

theorem create_validation:
  "(if b_title body \<in> {None, Some []} \<or> b_description body \<in> {None, Some []} \<or>
       b_location body \<in> {None, Some []} \<or> b_category body \<notin> Some ` set category_values
    then (\<exists>errs. errs \<noteq> [] \<and> res (createIssue actor body d e) = Sent 400 (Errors errs)) \<and>
         db_after (createIssue actor body d e) = d \<and> effects (createIssue actor body d e) = []
    else (\<exists>x r. res (createIssue actor body d e) = Sent 201 (IssueWithReporter x r) \<and>
            status x = ''REPORTED'' \<and> reporterId x = ru_id actor \<and>
            issues (db_after (createIssue actor body d e)) = issues d @ [x]))"
proof (cases "createIssue_validators body = []")
  case True
  then obtain t ds l c where "b_title body = Some t" "t \<noteq> []"
      "b_description body = Some ds" "ds \<noteq> []" "b_location body = Some l" "l \<noteq> []"
      "b_category body = Some c" "c \<in> set category_values"
    unfolding validators_empty_iff by blast
  then show ?thesis using True
    by (simp add: createIssue_def issue_create_def Let_def default_status_def image_iff)
next
  case False
  then have "b_title body \<in> {None, Some []} \<or> b_description body \<in> {None, Some []} \<or>
       b_location body \<in> {None, Some []} \<or> b_category body \<notin> Some ` set category_values"
    unfolding validators_empty_iff
    by (cases "b_title body"; cases "b_description body"; cases "b_location body";
        cases "b_category body") auto
  then show ?thesis using False by (simp add: createIssue_def Let_def)
qed

text \<open>
  Alice's pothole report is created with status REPORTED and Alice as reporter; the same
  report with an empty title is refused.
\<close>

theorem create_validation_witness:
  "res (createIssue (as_actor alice) pothole_body registry quiet_env) =
     Sent 201 (IssueWithReporter
       \<lparr>issue_id = ''i2'', title = ''Pothole'', description = ''Big pothole on 5th'',
        location = ''5th Ave'', latitude = None, longitude = None, category = ''ROADS'',
        status = ''REPORTED'', upvotes = 0, images = [], reporterId = ''u1'', createdAt = 3\<rparr>
       (Some alice_view)) \<and>
   b_title untitled_body = Some [] \<and>
   res (createIssue (as_actor alice) untitled_body registry quiet_env) =
     Sent 400 (Errors [''Title is required'']) \<and>
   db_after (createIssue (as_actor alice) untitled_body registry quiet_env) = registry"
  using create_validation [of pothole_body "as_actor alice" registry quiet_env]
        create_validation [of untitled_body "as_actor alice" registry quiet_env]
  by (simp add: createIssue_def createIssue_validators_def notEmpty_def isIn_def
        issue_create_def category_values_def default_status_def default_upvotes_def
        select_reporter_def user_findUnique_def Let_def pothole_body_def untitled_body_def
        registry_def quiet_env_def as_actor_def alice_def alice_view_def)

section \<open>Authentication\<close>








section \<open>A resource that does not exist\<close>

text \<open>
  Claim C1, as stated, fails for the user operations: Bob, a citizen, asks for and then
  tries to update a user that does not exist, and is answered with 403, not 404.
\<close>

theorem missing_user_forbidden:
  "user_findUnique ''u9'' town = None \<and>
   res (getUserById (as_actor bob) ''u9'' town) =
     Sent 403 (ErrorMessage ''Not authorized to view this user'') \<and>
   res (updateUser (as_actor bob) ''u9'' \<lparr>ub_name = Some ''Robert'', ub_profilePicture = None\<rparr> town) =
     Sent 403 (ErrorMessage ''Not authorized to update this user'')"
  by (simp add: getUserById_def updateUser_def user_findUnique_def town_def as_actor_def
        alice_def bob_def olga_def)

text \<open>
  Claim C1, amended. An update, a delete or an upvote of an issue that does not exist is
  answered with 404 for every actor, and so is a comment on it when the comment's content
  is not empty; a comment with empty content is answered with 400. For the view and the
  update of a user the authorization check comes first: a user that does not exist is
  answered with 404 when the actor is an ADMIN or addresses the actor's own id, and with
  403 for every other actor. None of these requests changes the store.
\<close>

theorem missing_resource_answers:
  "(issue_findUnique i d = None \<longrightarrow>
      updateIssue actor i body d e =
        \<lparr>res = Sent 404 (ErrorMessage ''Issue not found''), db_after = d, effects = []\<rparr> \<and>
      deleteIssue actor i d =
        \<lparr>res = Sent 404 (ErrorMessage ''Issue not found''), db_after = d, effects = []\<rparr> \<and>
      upvoteIssue actor i d =
        \<lparr>res = Sent 404 (ErrorMessage ''Issue not found''), db_after = d, effects = []\<rparr> \<and>
      addComment actor i c d e =
        \<lparr>res = (if c = None \<or> c = Some []
                then Sent 400 (Errors [''Comment content is required''])
                else Sent 404 (ErrorMessage ''Issue not found'')),
         db_after = d, effects = []\<rparr>) \<and>
   (user_findUnique j d = None \<longrightarrow>
      getUserById actor j d =
        \<lparr>res = (if j \<noteq> ru_id actor \<and> ru_role actor \<noteq> ''ADMIN''
                then Sent 403 (ErrorMessage ''Not authorized to view this user'')
                else Sent 404 (ErrorMessage ''User not found'')),
         db_after = d, effects = []\<rparr> \<and>
      updateUser actor j ub d =
        \<lparr>res = (if j \<noteq> ru_id actor \<and> ru_role actor \<noteq> ''ADMIN''
                then Sent 403 (ErrorMessage ''Not authorized to update this user'')
                else Sent 404 (ErrorMessage ''User not found'')),
         db_after = d, effects = []\<rparr>)"
  by (auto simp: updateIssue_def deleteIssue_def upvoteIssue_def addComment_def
        addComment_validators_def notEmpty_def getUserById_def updateUser_def Let_def
        split: option.splits)

lemma town_no_i9: "issue_findUnique ''i9'' town = None"
  by (simp add: issue_findUnique_def town_def pothole_def)

lemma town_no_u9: "user_findUnique ''u9'' town = None"
  by (simp add: user_findUnique_def town_def alice_def bob_def olga_def)

text \<open>
  Bob deletes and upvotes an issue that does not exist: 404 both times. Bob asks for a
  user that does not exist: 403.
\<close>

theorem missing_resource_answers_witness:
  "issue_findUnique ''i9'' town = None \<and> user_findUnique ''u9'' town = None \<and>
   res (deleteIssue (as_actor bob) ''i9'' town) = Sent 404 (ErrorMessage ''Issue not found'') \<and>
   res (upvoteIssue (as_actor bob) ''i9'' town) = Sent 404 (ErrorMessage ''Issue not found'') \<and>
   res (addComment (as_actor bob) ''i9'' (Some ''Where?'') town quiet_env) =
     Sent 404 (ErrorMessage ''Issue not found'') \<and>
   res (getUserById (as_actor bob) ''u9'' town) =
     Sent 403 (ErrorMessage ''Not authorized to view this user'')"
  using missing_resource_answers [of "''i9''" town "as_actor bob" no_change quiet_env
          "Some ''Where?''" "''u9''" "\<lparr>ub_name = None, ub_profilePicture = None\<rparr>"]
        town_no_i9 town_no_u9
  by (simp add: as_actor_def bob_def)

section \<open>Listing issues page by page\<close>











end
